theory Spec2Isabelle
  imports Main
begin

section \<open>MuGit: a shallow embedding of \<^verbatim>\<open>UefiBuild/MuBuild/MuGit.py\<close>\<close>

text \<open>
  The module wraps the external \<^verbatim>\<open>git\<close> tool. Everything it learns about a
  repository comes from two collaborators that are not part of the module: the process
  runner \<^verbatim>\<open>RunCmd\<close> (imported from \<^verbatim>\<open>UtilityFunctions\<close>) and the
  filesystem predicate \<^verbatim>\<open>os.path.isdir\<close>. Both are parameters of the model (the
  record \<open>env\<close>), and both may answer differently as the run proceeds: they see the
  list of invocations issued so far.

  A Python \<^verbatim>\<open>str\<close> is modelled as a \<open>string\<close> whose characters are the code
  points below 256; \<^verbatim>\<open>strip\<close> and \<^verbatim>\<open>lower\<close> are Python's, restricted to
  that range. An exception is a value \<open>Exc cls msg\<close> and stands for an instance of
  \<^verbatim>\<open>Exception\<close>, the only kind the handler of \<^verbatim>\<open>_update_from_git\<close> catches.
\<close>

subsection \<open>Strings\<close>

definition isspace :: "char \<Rightarrow> bool" where
  \<comment> \<open>\<^verbatim>\<open>str.isspace\<close> on one code point below 256: TAB, LF, VT, FF, CR, FS, GS, RS, US,
      SPACE, NEL (0x85) and NBSP (0xA0)\<close>
  "isspace c =
     (let n = (of_char c :: nat)
      in (9 \<le> n \<and> n \<le> 13) \<or> (28 \<le> n \<and> n \<le> 32) \<or> n = 133 \<or> n = 160)"

definition strip :: "string \<Rightarrow> string" where
  "strip s = rev (dropWhile isspace (rev (dropWhile isspace s)))"

definition lower_char :: "char \<Rightarrow> char" where
  \<comment> \<open>\<^verbatim>\<open>str.lower\<close> on one code point below 256: A-Z and the Latin-1 capitals
      0xC0-0xDE (without the multiplication sign 0xD7) move up by 32\<close>
  "lower_char c =
     (let n = (of_char c :: nat)
      in if (65 \<le> n \<and> n \<le> 90) \<or> (192 \<le> n \<and> n \<le> 222 \<and> n \<noteq> 215)
         then char_of (n + 32) else c)"

definition lower :: "string \<Rightarrow> string" where
  "lower s = map lower_char s"

definition startswith :: "string \<Rightarrow> string \<Rightarrow> bool" where
  "startswith s pre = (take (length pre) s = pre)"

fun split_nl :: "string \<Rightarrow> string list" where
  \<comment> \<open>\<^verbatim>\<open>s.split("\n")\<close>: one more field than there are newlines, so never empty\<close>
  "split_nl [] = [[]]"
| "split_nl (c # cs) =
     (if c = CHR 0x0A then [] # split_nl cs
      else (case split_nl cs of
              [] \<Rightarrow> [[c]]
            | f # fs \<Rightarrow> (c # f) # fs))"

fun join_sp :: "string list \<Rightarrow> string" where
  \<comment> \<open>\<^verbatim>\<open>" ".join(args)\<close>\<close>
  "join_sp [] = []"
| "join_sp [a] = a"
| "join_sp (a # b # rest) = a @ '' '' @ join_sp (b # rest)"

definition path_join :: "string \<Rightarrow> string \<Rightarrow> string" where
  \<comment> \<open>\<^verbatim>\<open>os.path.join(a, b)\<close> of \<^verbatim>\<open>posixpath\<close>, two components\<close>
  "path_join a b =
     (if startswith b ''/'' then b
      else if a = [] \<or> last a = CHR ''/'' then a @ b
      else a @ ''/'' @ b)"

subsection \<open>Exceptions, the log, the outside world\<close>

datatype exn = Exc (cls: string) (msg: string)

datatype pyobj = Str string | Tuple "string list" | NoneObj | ExnObj exn

datatype level = DEBUG | ERROR

datatype logmsg =
    Formatted string "pyobj list"  \<comment> \<open>\<^verbatim>\<open>"...{0}...".format(args)\<close>: the template and its arguments\<close>
  | Plain pyobj                    \<comment> \<open>the object handed to \<^verbatim>\<open>logging\<close> as it is\<close>

type_synonym call = "string \<times> string option"
  \<comment> \<open>one invocation of the runner: the command line and \<^verbatim>\<open>workingdir\<close>\<close>

record world =
  calls :: "call list"                \<comment> \<open>invocations of the runner, oldest first\<close>
  logged :: "(level \<times> logmsg) list"   \<comment> \<open>records handed to \<^verbatim>\<open>logging\<close>, oldest first\<close>

record env =
  RunCmd :: "call list \<Rightarrow> string \<Rightarrow> string option \<Rightarrow> exn + (int \<times> string)"
    \<comment> \<open>given the invocations so far, a command and a working directory: the exception
        raised, or the exit code and the text written to \<^verbatim>\<open>outstream\<close>\<close>
  isdir :: "call list \<Rightarrow> string \<Rightarrow> bool"
    \<comment> \<open>\<^verbatim>\<open>os.path.isdir\<close> on a string, after the invocations so far\<close>

definition invoke ::
  "env \<Rightarrow> string \<Rightarrow> string option \<Rightarrow> world \<Rightarrow> (exn + (int \<times> string)) \<times> world" where
  \<comment> \<open>\<^verbatim>\<open>ret = RunCmd(cmd, workingdir=wd, outstream=buf); buf.getvalue()\<close> on a fresh buffer\<close>
  "invoke e cmd wd w = (RunCmd e (calls w) cmd wd, w\<lparr>calls := calls w @ [(cmd, wd)]\<rparr>)"

definition os_path_isdir :: "env \<Rightarrow> string option \<Rightarrow> world \<Rightarrow> exn + bool" where
  \<comment> \<open>\<^verbatim>\<open>os.path.isdir(None)\<close> raises: \<^verbatim>\<open>os.stat\<close> rejects a non-path with TypeError\<close>
  "os_path_isdir e p w =
     (case p of
        None \<Rightarrow> Inl (Exc ''TypeError'' ''stat: path should be string, bytes, os.PathLike or integer, not NoneType'')
      | Some s \<Rightarrow> Inr (isdir e (calls w) s))"

subsection \<open>ObjectDict\<close>

record 'v ObjectDict =
  ovalues :: "string list + 'v"
    \<comment> \<open>the attribute \<^verbatim>\<open>_ObjectDict__values\<close>: the list of declared names, or whatever
        value a later \<^verbatim>\<open>setattr\<close> under that very name has put in its place\<close>
  attrs :: "string \<rightharpoonup> 'v"
    \<comment> \<open>every other instance attribute\<close>

definition ObjectDict_init :: "'v ObjectDict" where
  "ObjectDict_init = \<lparr>ovalues = Inl [], attrs = Map.empty\<rparr>"

definition object_setattr :: "'v ObjectDict \<Rightarrow> string \<Rightarrow> 'v \<Rightarrow> exn + 'v ObjectDict" where
  \<comment> \<open>\<^verbatim>\<open>super().__setattr__(key, value)\<close>: the three data descriptors of an instance
      refuse the value, the private list is replaced, any other name is stored\<close>
  "object_setattr d key v =
     (if key = ''__class__'' then Inl (Exc ''TypeError'' ''__class__ must be set to a class'')
      else if key = ''__dict__'' then Inl (Exc ''TypeError'' ''__dict__ must be set to a dictionary'')
      else if key = ''__weakref__'' then Inl (Exc ''AttributeError'' ''attribute __weakref__ is not writable'')
      else if key = ''_ObjectDict__values'' then Inr (d\<lparr>ovalues := Inr v\<rparr>)
      else Inr (d\<lparr>attrs := (attrs d)(key \<mapsto> v)\<rparr>))"

definition ObjectDict_setattr :: "'v ObjectDict \<Rightarrow> string \<Rightarrow> 'v \<Rightarrow> exn + 'v ObjectDict" where
  "ObjectDict_setattr d key v =
     (if \<not> startswith key ''_'' then
        (case ovalues d of
           Inl names \<Rightarrow> object_setattr (d\<lparr>ovalues := Inl (names @ [key])\<rparr>) key v
         | Inr _ \<Rightarrow> Inl (Exc ''AttributeError'' ''object has no attribute append''))
      else object_setattr d key v)"

definition ObjectDict_set :: "'v ObjectDict \<Rightarrow> string \<Rightarrow> 'v \<Rightarrow> exn + 'v ObjectDict" where
  "ObjectDict_set d key v = ObjectDict_setattr d key v"

subsection \<open>Repo\<close>

record Repo =
  path :: "string option"
  active_branch :: "string option"
  bare :: bool
  exists :: bool
  remotes :: "string ObjectDict ObjectDict"
  initalized :: bool
  url :: "string option"
  dirty :: bool
  head :: "string ObjectDict option"

definition get_url :: "env \<Rightarrow> Repo \<Rightarrow> string \<Rightarrow> world \<Rightarrow> (exn + string) \<times> world" where
  "get_url e self remote w =
     (case invoke e (''git config --get remote.'' @ remote @ ''.url'') (path self) w of
        (Inl x, w') \<Rightarrow> (Inl x, w')
      | (Inr (ret, out), w') \<Rightarrow> (Inr (strip out), w'))"

fun remotes_loop ::
  "env \<Rightarrow> Repo \<Rightarrow> string list \<Rightarrow> string ObjectDict ObjectDict \<Rightarrow> world
     \<Rightarrow> (exn + string ObjectDict ObjectDict) \<times> world" where
  "remotes_loop e self [] new_remotes w = (Inr new_remotes, w)"
| "remotes_loop e self (remote # rest) new_remotes w =
     (case get_url e self remote w of
        (Inl x, w') \<Rightarrow> (Inl x, w')
      | (Inr u, w') \<Rightarrow>
          (case ObjectDict_set ObjectDict_init ''url'' u of
             Inl x \<Rightarrow> (Inl x, w')
           | Inr url_obj \<Rightarrow>
               (case ObjectDict_setattr new_remotes remote url_obj of
                  Inl x \<Rightarrow> (Inl x, w')
                | Inr new_remotes' \<Rightarrow> remotes_loop e self rest new_remotes' w')))"

definition get_remotes ::
  "env \<Rightarrow> Repo \<Rightarrow> world \<Rightarrow> (exn + string ObjectDict ObjectDict) \<times> world" where
  "get_remotes e self w =
     (case invoke e ''git remote'' (path self) w of
        (Inl x, w') \<Rightarrow> (Inl x, w')
      | (Inr (ret, out), w') \<Rightarrow>
          remotes_loop e self (split_nl (strip out)) ObjectDict_init w')"

definition get_dirty :: "env \<Rightarrow> Repo \<Rightarrow> world \<Rightarrow> (exn + bool) \<times> world" where
  "get_dirty e self w =
     (case invoke e ''git status --short'' (path self) w of
        (Inl x, w') \<Rightarrow> (Inl x, w')
      | (Inr (ret, out), w') \<Rightarrow>
          if length (strip out) > 0 then (Inr True, w')
          else
            (case invoke e ''git log --branches --not --remotes --decorate --oneline''
                    (path self) w' of
               (Inl x, w'') \<Rightarrow> (Inl x, w'')
             | (Inr (ret2, out2), w'') \<Rightarrow>
                 if length (strip out2) > 0 then (Inr True, w'') else (Inr False, w'')))"

definition get_branch :: "env \<Rightarrow> Repo \<Rightarrow> world \<Rightarrow> (exn + string) \<times> world" where
  "get_branch e self w =
     (case invoke e ''git rev-parse --abbrev-ref HEAD'' (path self) w of
        (Inl x, w') \<Rightarrow> (Inl x, w')
      | (Inr (ret, out), w') \<Rightarrow> (Inr (strip out), w'))"

definition get_head :: "env \<Rightarrow> Repo \<Rightarrow> world \<Rightarrow> (exn + string ObjectDict) \<times> world" where
  "get_head e self w =
     (case invoke e ''git rev-parse HEAD'' (path self) w of
        (Inl x, w') \<Rightarrow> (Inl x, w')
      | (Inr (ret, out), w') \<Rightarrow>
          (case ObjectDict_set ObjectDict_init ''commit'' (strip out) of
             Inl x \<Rightarrow> (Inl x, w')
           | Inr head_obj \<Rightarrow> (Inr head_obj, w')))"

definition get_bare :: "env \<Rightarrow> Repo \<Rightarrow> world \<Rightarrow> (exn + bool) \<times> world" where
  "get_bare e self w =
     (case invoke e ''git rev-parse --is-bare-repository'' (path self) w of
        (Inl x, w') \<Rightarrow> (Inl x, w')
      | (Inr (ret, out), w') \<Rightarrow>
          if lower (strip out) = ''true'' then (Inr True, w') else (Inr False, w'))"

definition get_initalized :: "env \<Rightarrow> Repo \<Rightarrow> world \<Rightarrow> exn + bool" where
  \<comment> \<open>\<^verbatim>\<open>os.path.join(None, ".git")\<close> raises TypeError\<close>
  "get_initalized e self w =
     (case path self of
        None \<Rightarrow> Inl (Exc ''TypeError'' ''expected str, bytes or os.PathLike object, not NoneType'')
      | Some p \<Rightarrow> os_path_isdir e (Some (path_join p ''.git'')) w)"

definition log_record :: "level \<Rightarrow> logmsg \<Rightarrow> world \<Rightarrow> world" where
  "log_record l m w = w\<lparr>logged := logged w @ [(l, m)]\<rparr>"

definition try_body :: "env \<Rightarrow> Repo \<Rightarrow> world \<Rightarrow> exn option \<times> Repo \<times> world" where
  \<comment> \<open>the \<^verbatim>\<open>try\<close> block of \<^verbatim>\<open>_update_from_git\<close>: the exception that leaves it, if
      any, and the handle with the fields assigned up to that point\<close>
  "try_body e self w =
     (let s0 = self\<lparr>exists := True\<rparr> in
      case get_branch e s0 w of
        (Inl x, w1) \<Rightarrow> (Some x, s0, w1)
      | (Inr b, w1) \<Rightarrow>
     (let s1 = s0\<lparr>active_branch := Some b\<rparr> in
      case get_remotes e s1 w1 of
        (Inl x, w2) \<Rightarrow> (Some x, s1, w2)
      | (Inr r, w2) \<Rightarrow>
     (let s2 = s1\<lparr>remotes := r\<rparr> in
      case get_head e s2 w2 of
        (Inl x, w3) \<Rightarrow> (Some x, s2, w3)
      | (Inr h, w3) \<Rightarrow>
     (let s3 = s2\<lparr>head := Some h\<rparr> in
      case get_dirty e s3 w3 of
        (Inl x, w4) \<Rightarrow> (Some x, s3, w4)
      | (Inr d, w4) \<Rightarrow>
     (let s4 = s3\<lparr>dirty := d\<rparr> in
      case get_bare e s4 w4 of
        (Inl x, w5) \<Rightarrow> (Some x, s4, w5)
      | (Inr ba, w5) \<Rightarrow>
     (let s5 = s4\<lparr>bare := ba\<rparr> in
      case get_initalized e s5 w5 of
        Inl x \<Rightarrow> (Some x, s5, w5)
      | Inr i \<Rightarrow> (None, s5\<lparr>initalized := i\<rparr>, w5)))))))"

definition update_from_git :: "env \<Rightarrow> Repo \<Rightarrow> world \<Rightarrow> exn option \<times> Repo \<times> world" where
  "update_from_git e self w =
     (case os_path_isdir e (path self) w of
        Inl x \<Rightarrow> (Some x, self, w)
      | Inr False \<Rightarrow> (None, self, w)
      | Inr True \<Rightarrow>
          (case try_body e self w of
             (None, s, w') \<Rightarrow> (None, s, w')
           | (Some x, s, w') \<Rightarrow>
               (Some x, s,
                log_record ERROR (Plain (ExnObj x))
                  (log_record ERROR
                     (Formatted ''GIT ERROR for {0}''
                        [case path self of None \<Rightarrow> NoneObj | Some p \<Rightarrow> Str p]) w'))))"

definition Repo_defaults :: "string option \<Rightarrow> Repo" where
  \<comment> \<open>the assignments of \<^verbatim>\<open>__init__\<close> before it calls \<^verbatim>\<open>_update_from_git\<close>\<close>
  "Repo_defaults p =
     \<lparr>path = p, active_branch = None, bare = True, exists = False,
      remotes = ObjectDict_init, initalized = False, url = None,
      dirty = False, head = None\<rparr>"

definition Repo_init :: "env \<Rightarrow> string option \<Rightarrow> world \<Rightarrow> (exn + Repo) \<times> world" where
  \<comment> \<open>\<^verbatim>\<open>Repo(path)\<close>: an exception leaving \<^verbatim>\<open>__init__\<close> leaves no handle behind\<close>
  "Repo_init e p w =
     (case update_from_git e (Repo_defaults p) w of
        (Some x, s, w') \<Rightarrow> (Inl x, w')
      | (None, s, w') \<Rightarrow> (Inr s, w'))"

definition submodule ::
  "env \<Rightarrow> Repo \<Rightarrow> string \<Rightarrow> string list \<Rightarrow> world \<Rightarrow> (exn + bool) \<times> world" where
  "submodule e self command args w =
     (let w0 = log_record DEBUG
                 (Formatted ''Calling command on submodule {0} with {1}''
                    [Str command, Tuple args]) w;
          flags = join_sp args;
          cmd = ''git submodule '' @ command @ '' '' @ flags
      in case invoke e cmd (path self) w0 of
           (Inl x, w1) \<Rightarrow> (Inl x, w1)
         | (Inr (ret, out), w1) \<Rightarrow>
             if ret \<noteq> 0 then (Inr False, log_record ERROR (Plain (Str (strip out))) w1)
             else (Inr True, w1))"

definition clone_cmd :: "bool \<Rightarrow> string \<Rightarrow> string \<Rightarrow> string" where
  "clone_cmd shallow u to_path =
     (if shallow
      then ''git clone --depth 1 --shallow-submodules --recurse-submodules '' @ u @ '' '' @ to_path @ '' ''
      else ''git clone --recurse-submodules '' @ u @ '' '' @ to_path @ '' '')"

definition clone_from ::
  "env \<Rightarrow> string \<Rightarrow> string \<Rightarrow> bool \<Rightarrow> world \<Rightarrow> (exn + Repo) \<times> world" where
  \<comment> \<open>\<^verbatim>\<open>RunCmd(cmd)\<close>: no working directory, no output stream, exit code dropped\<close>
  "clone_from e u to_path shallow w =
     (let w0 = log_record DEBUG (Formatted ''Cloning {0} into {1}'' [Str u, Str to_path]) w
      in case invoke e (clone_cmd shallow u to_path) None w0 of
           (Inl x, w1) \<Rightarrow> (Inl x, w1)
         | (Inr r, w1) \<Rightarrow> Repo_init e (Some to_path) w1)"

subsection \<open>Concrete collaborators\<close>

text \<open>
  A runner that answers from a table of canned replies, whatever happened before, and
  raises \<^verbatim>\<open>OSError\<close> on a command the table does not know; with it, an environment in
  which every path is a directory. They give the theorems below inputs to run on.
\<close>

definition canned ::
  "(string \<times> int \<times> string) list \<Rightarrow> call list \<Rightarrow> string \<Rightarrow> string option
     \<Rightarrow> exn + (int \<times> string)" where
  "canned table h cmd wd =
     (case map_of table cmd of
        Some r \<Rightarrow> Inr r
      | None \<Rightarrow> Inl (Exc ''OSError'' cmd))"

definition canned_env :: "(string \<times> int \<times> string) list \<Rightarrow> env" where
  "canned_env table = \<lparr>RunCmd = canned table, isdir = (\<lambda>h p. True)\<rparr>"

definition world0 :: world where
  "world0 = \<lparr>calls = [], logged = []\<rparr>"

subsection \<open>Notions the statements need\<close>

definition with_exit_codes ::
  "(call list \<Rightarrow> string \<Rightarrow> string option \<Rightarrow> int \<Rightarrow> int) \<Rightarrow> env \<Rightarrow> env" where
  \<comment> \<open>the same collaborators, but every exit code the runner returns is replaced\<close>
  "with_exit_codes f e =
     e\<lparr>RunCmd := \<lambda>h cmd wd.
          (case RunCmd e h cmd wd of
             Inl x \<Rightarrow> Inl x
           | Inr (rc, out) \<Rightarrow> Inr (f h cmd wd rc, out))\<rparr>"

definition is_clone :: "call \<Rightarrow> bool" where
  \<comment> \<open>an invocation of \<^verbatim>\<open>git clone\<close>\<close>
  "is_clone c = startswith (fst c) ''git clone ''"

definition clone_calls :: "world \<Rightarrow> call list" where
  \<comment> \<open>the invocations of \<^verbatim>\<open>git clone\<close> so far, oldest first\<close>
  "clone_calls w = filter is_clone (calls w)"

section \<open>The queries, one by one\<close>

subsection \<open>The dirty flag\<close>

lemma get_dirty_first:
  assumes "RunCmd e (calls w) ''git status --short'' (path self) = Inr (rc, out)"
    and "strip out \<noteq> []"
  shows "get_dirty e self w =
           (Inr True, w\<lparr>calls := calls w @ [(''git status --short'', path self)]\<rparr>)"
  using assms by (simp add: get_dirty_def invoke_def)

lemma get_dirty_second:
  assumes "RunCmd e (calls w) ''git status --short'' (path self) = Inr (rc, out)"
    and "strip out = []"
    and "RunCmd e (calls w @ [(''git status --short'', path self)])
           ''git log --branches --not --remotes --decorate --oneline'' (path self)
         = Inr (rc', out')"
  shows "get_dirty e self w =
           (Inr (strip out' \<noteq> []),
            w\<lparr>calls := calls w @ [(''git status --short'', path self),
                 (''git log --branches --not --remotes --decorate --oneline'', path self)]\<rparr>)"
  using assms by (simp add: get_dirty_def invoke_def)

text \<open>
  Claim C1. Let the short-status query answer \<open>out\<close> and, should it be asked, the
  unpushed-commits query answer \<open>out'\<close>. Then \<^verbatim>\<open>_get_dirty\<close> returns, without
  raising, exactly the truth value of: the trimmed \<open>out\<close> is non-empty or the trimmed
  \<open>out'\<close> is non-empty. So it is true when short-status is empty and the log is not, and
  false when both are empty. (The second answer is only needed when the first is empty.)
\<close>

theorem get_dirty_iff:
  assumes "RunCmd e (calls w) ''git status --short'' (path self) = Inr (rc, out)"
    and "strip out = [] \<Longrightarrow>
         RunCmd e (calls w @ [(''git status --short'', path self)])
           ''git log --branches --not --remotes --decorate --oneline'' (path self)
         = Inr (rc', out')"
  shows "fst (get_dirty e self w) = Inr (strip out \<noteq> [] \<or> strip out' \<noteq> [])"
proof (cases "strip out = []")
  case True
  with assms show ?thesis by (simp add: get_dirty_second)
next
  case False
  with assms(1) show ?thesis by (simp add: get_dirty_first)
qed

theorem get_dirty_iff_witness:
  "fst (get_dirty
          (canned_env
             [(''git status --short'', 0, ''''),
              (''git log --branches --not --remotes --decorate --oneline'', 0,
               ''1a2b3c (HEAD -> main) wip'')])
          (Repo_defaults (Some ''/r'')) world0) = Inr True
   \<and> fst (get_dirty
          (canned_env
             [(''git status --short'', 0, '' ''),
              (''git log --branches --not --remotes --decorate --oneline'', 0, '''')])
          (Repo_defaults (Some ''/r'')) world0) = Inr False"
proof -
  have a: "fst (get_dirty
          (canned_env
             [(''git status --short'', 0, ''''),
              (''git log --branches --not --remotes --decorate --oneline'', 0,
               ''1a2b3c (HEAD -> main) wip'')])
          (Repo_defaults (Some ''/r'')) world0)
        = Inr (strip '''' \<noteq> [] \<or> strip ''1a2b3c (HEAD -> main) wip'' \<noteq> [])"
    by (rule get_dirty_iff [where rc = 0 and rc' = 0])
       (simp_all add: canned_env_def canned_def)
  have b: "fst (get_dirty
          (canned_env
             [(''git status --short'', 0, '' ''),
              (''git log --branches --not --remotes --decorate --oneline'', 0, '''')])
          (Repo_defaults (Some ''/r'')) world0)
        = Inr (strip '' '' \<noteq> [] \<or> strip '''' \<noteq> [])"
    by (rule get_dirty_iff [where rc = 0 and rc' = 0])
       (simp_all add: canned_env_def canned_def)
  from a b show ?thesis by (simp add: strip_def isspace_def)
qed

text \<open>
  Claim C3. When the short-status query answers with non-empty trimmed output,
  \<^verbatim>\<open>_get_dirty\<close> returns true and the world it leaves behind has exactly one more
  invocation than before, the short-status query itself: the unpushed-commits query is
  not issued.
\<close>

theorem get_dirty_short_circuit:
  assumes "RunCmd e (calls w) ''git status --short'' (path self) = Inr (rc, out)"
    and "strip out \<noteq> []"
  shows "get_dirty e self w =
           (Inr True, w\<lparr>calls := calls w @ [(''git status --short'', path self)]\<rparr>)
         \<and> length (calls (snd (get_dirty e self w))) = Suc (length (calls w))"
  using assms by (simp add: get_dirty_first)

theorem get_dirty_short_circuit_witness:
  "get_dirty (canned_env [(''git status --short'', 0, '' M MuGit.py'')])
     (Repo_defaults (Some ''/r'')) world0
   = (Inr True, \<lparr>calls = [(''git status --short'', Some ''/r'')], logged = []\<rparr>)"
proof -
  have h: "RunCmd (canned_env [(''git status --short'', 0, '' M MuGit.py'')]) (calls world0)
             ''git status --short'' (path (Repo_defaults (Some ''/r'')))
           = Inr (0, '' M MuGit.py'')"
    by (simp add: canned_env_def canned_def)
  have n: "strip '' M MuGit.py'' \<noteq> []"
    by (simp add: strip_def isspace_def)
  from get_dirty_short_circuit [OF h n] show ?thesis
    by (simp add: world0_def Repo_defaults_def)
qed

subsection \<open>The bare flag\<close>

text \<open>
  Claim C4. Whatever text the bare-repository query answers, \<^verbatim>\<open>_get_bare\<close> returns
  true exactly when the trimmed text, lower-cased, is \<^verbatim>\<open>true\<close>. In particular the
  answers \<^verbatim>\<open>true\<close>, \<^verbatim>\<open>True\<close> and \<^verbatim>\<open>TRUE\<close> give true and \<^verbatim>\<open>false\<close> gives false.
\<close>

theorem get_bare_iff:
  assumes "RunCmd e (calls w) ''git rev-parse --is-bare-repository'' (path self) = Inr (rc, out)"
  shows "fst (get_bare e self w) = Inr (lower (strip out) = ''true'')
         \<and> (out \<in> {''true'', ''True'', ''TRUE''} \<longrightarrow> fst (get_bare e self w) = Inr True)
         \<and> (out = ''false'' \<longrightarrow> fst (get_bare e self w) = Inr False)"
proof -
  have main: "fst (get_bare e self w) = Inr (lower (strip out) = ''true'')"
    using assms by (simp add: get_bare_def invoke_def)
  have t: "lower (strip ''true'') = ''true''" "lower (strip ''True'') = ''true''"
     "lower (strip ''TRUE'') = ''true''" "lower (strip ''false'') \<noteq> ''true''"
    by code_simp+
  show ?thesis using main t by auto
qed

theorem get_bare_iff_witness:
  "fst (get_bare (canned_env [(''git rev-parse --is-bare-repository'', 0, ''TRUE'')])
          (Repo_defaults (Some ''/r'')) world0) = Inr True"
proof -
  have h: "RunCmd (canned_env [(''git rev-parse --is-bare-repository'', 0, ''TRUE'')])
             (calls world0) ''git rev-parse --is-bare-repository''
             (path (Repo_defaults (Some ''/r''))) = Inr (0, ''TRUE'')"
    by (simp add: canned_env_def canned_def)
  from get_bare_iff [OF h] show ?thesis by blast
qed

subsection \<open>Construction on something that is not a directory\<close>

text \<open>
  Claim C2. Constructing a handle on a path that is not a directory raises nothing,
  leaves the world as it found it (no invocation of the runner, no log record) and
  returns the handle with every field at its default: \<open>exists\<close> false, \<open>bare\<close> true,
  \<open>initalized\<close> false, \<open>dirty\<close> false, \<open>remotes\<close> an \<^verbatim>\<open>ObjectDict\<close> with no name and no
  attribute, \<open>head\<close>, \<open>active_branch\<close> and \<open>url\<close> \<^verbatim>\<open>None\<close>.
\<close>

theorem Repo_init_not_a_directory:
  assumes "\<not> isdir e (calls w) p"
  shows "Repo_init e (Some p) w =
           (Inr \<lparr>path = Some p, active_branch = None, bare = True, exists = False,
                 remotes = \<lparr>ovalues = Inl [], attrs = Map.empty\<rparr>, initalized = False,
                 url = None, dirty = False, head = None\<rparr>,
            w)"
  using assms
  by (simp add: Repo_init_def update_from_git_def os_path_isdir_def Repo_defaults_def
        ObjectDict_init_def)

theorem Repo_init_not_a_directory_witness:
  "Repo_init \<lparr>RunCmd = canned [], isdir = (\<lambda>h p. False)\<rparr> (Some ''/no/such/dir'') world0 =
     (Inr \<lparr>path = Some ''/no/such/dir'', active_branch = None, bare = True, exists = False,
           remotes = \<lparr>ovalues = Inl [], attrs = Map.empty\<rparr>, initalized = False,
           url = None, dirty = False, head = None\<rparr>,
      \<lparr>calls = [], logged = []\<rparr>)"
proof -
  have h: "\<not> isdir \<lparr>RunCmd = canned [], isdir = (\<lambda>h p. False)\<rparr> (calls world0) ''/no/such/dir''"
    by simp
  from Repo_init_not_a_directory [OF h] show ?thesis
    by (simp add: world0_def)
qed

subsection \<open>Remotes\<close>

lemma get_url_ok:
  assumes "RunCmd e (calls w) (''git config --get remote.'' @ remote @ ''.url'') (path self)
           = Inr (rc, out)"
  shows "get_url e self remote w =
           (Inr (strip out),
            w\<lparr>calls := calls w @ [(''git config --get remote.'' @ remote @ ''.url'', path self)]\<rparr>)"
  using assms by (simp add: get_url_def invoke_def)

lemma url_object:
  "ObjectDict_set ObjectDict_init ''url'' u =
     Inr \<lparr>ovalues = Inl [''url''], attrs = [''url'' \<mapsto> u]\<rparr>"
  by (simp add: ObjectDict_set_def ObjectDict_setattr_def object_setattr_def
        ObjectDict_init_def startswith_def)

text \<open>
  Claim C5. Let the name-list query answer (after trimming) the two lines \<^verbatim>\<open>origin\<close>
  and \<^verbatim>\<open>upstream\<close>, and the two URL lookups that follow answer \<^verbatim>\<open>https://a/x.git\<close>
  and \<^verbatim>\<open>git@b:y.git\<close>. Then \<^verbatim>\<open>_get_remotes\<close> returns an \<^verbatim>\<open>ObjectDict\<close> whose
  declared names are \<^verbatim>\<open>origin\<close>, \<^verbatim>\<open>upstream\<close> in that order, that has exactly these
  two attributes, and whose \<^verbatim>\<open>origin.url\<close> and \<^verbatim>\<open>upstream.url\<close> are the two URLs.
\<close>

theorem get_remotes_origin_upstream:
  assumes names: "RunCmd e (calls w) ''git remote'' (path self) = Inr (rc, out)"
      "strip out = ''origin\<newline>upstream''"
    and origin: "RunCmd e (calls w @ [(''git remote'', path self)])
             ''git config --get remote.origin.url'' (path self) = Inr (rca, outa)"
      "strip outa = ''https://a/x.git''"
    and upstream: "RunCmd e
             (calls w @ [(''git remote'', path self),
                         (''git config --get remote.origin.url'', path self)])
             ''git config --get remote.upstream.url'' (path self) = Inr (rcb, outb)"
      "strip outb = ''git@b:y.git''"
  shows "fst (get_remotes e self w) =
           Inr \<lparr>ovalues = Inl [''origin'', ''upstream''],
                attrs = [''origin'' \<mapsto> \<lparr>ovalues = Inl [''url''],
                                         attrs = [''url'' \<mapsto> ''https://a/x.git'']\<rparr>,
                         ''upstream'' \<mapsto> \<lparr>ovalues = Inl [''url''],
                                           attrs = [''url'' \<mapsto> ''git@b:y.git'']\<rparr>]\<rparr>
         \<and> dom (attrs (projr (fst (get_remotes e self w)))) = {''origin'', ''upstream''}
         \<and> card (dom (attrs (projr (fst (get_remotes e self w))))) = 2"
proof -
  let ?c = "(''git remote'', path self)"
  let ?w = "w\<lparr>calls := calls w @ [?c]\<rparr>"
  let ?a = "\<lparr>ovalues = Inl [''url''], attrs = [''url'' \<mapsto> ''https://a/x.git'']\<rparr>"
  let ?b = "\<lparr>ovalues = Inl [''url''], attrs = [''url'' \<mapsto> ''git@b:y.git'']\<rparr>"
  let ?r = "\<lparr>ovalues = Inl [''origin'', ''upstream''],
             attrs = [''origin'' \<mapsto> ?a, ''upstream'' \<mapsto> ?b]\<rparr>"
  have split: "split_nl ''origin\<newline>upstream'' = [''origin'', ''upstream'']"
    by simp
  have ua: "get_url e self ''origin'' (w\<lparr>calls := calls w @ [?c]\<rparr>) =
              (Inr ''https://a/x.git'',
               w\<lparr>calls := calls w @ [?c, (''git config --get remote.origin.url'', path self)]\<rparr>)"
    using get_url_ok [of e ?w "''origin''" self rca outa] origin by simp
  have ub: "get_url e self ''upstream''
              (w\<lparr>calls := calls w @ [?c, (''git config --get remote.origin.url'', path self)]\<rparr>) =
              (Inr ''git@b:y.git'',
               w\<lparr>calls := calls w @ [?c, (''git config --get remote.origin.url'', path self),
                                       (''git config --get remote.upstream.url'', path self)]\<rparr>)"
    using get_url_ok [of e "w\<lparr>calls := calls w @ [?c, (''git config --get remote.origin.url'', path self)]\<rparr>"
            "''upstream''" self rcb outb] upstream by simp
  have sa: "ObjectDict_setattr ObjectDict_init ''origin'' ?a =
              Inr \<lparr>ovalues = Inl [''origin''], attrs = [''origin'' \<mapsto> ?a]\<rparr>"
    by (simp add: ObjectDict_setattr_def object_setattr_def ObjectDict_init_def startswith_def)
  have sb: "ObjectDict_setattr \<lparr>ovalues = Inl [''origin''], attrs = [''origin'' \<mapsto> ?a]\<rparr>
              ''upstream'' ?b = Inr ?r"
    by (simp add: ObjectDict_setattr_def object_setattr_def startswith_def)
  have loop: "fst (remotes_loop e self [''origin'', ''upstream''] ObjectDict_init ?w) = Inr ?r"
    by (simp add: ua ub url_object sa sb)
  have res: "fst (get_remotes e self w) = Inr ?r"
    using names loop by (simp add: get_remotes_def invoke_def split)
  have d: "dom [''origin'' \<mapsto> ?a, ''upstream'' \<mapsto> ?b] = {''origin'', ''upstream''}"
    by auto
  have c: "card {''origin'', ''upstream''} = 2"
    by simp
  show ?thesis
    unfolding res using d c by simp
qed

theorem get_remotes_origin_upstream_witness:
  "fst (get_remotes
          (canned_env
             [(''git remote'', 0, ''origin\<newline>upstream\<newline>''),
              (''git config --get remote.origin.url'', 0, ''https://a/x.git\<newline>''),
              (''git config --get remote.upstream.url'', 0, ''git@b:y.git\<newline>'')])
          (Repo_defaults (Some ''/r'')) world0)
   = Inr \<lparr>ovalues = Inl [''origin'', ''upstream''],
          attrs = [''origin'' \<mapsto> \<lparr>ovalues = Inl [''url''],
                                   attrs = [''url'' \<mapsto> ''https://a/x.git'']\<rparr>,
                   ''upstream'' \<mapsto> \<lparr>ovalues = Inl [''url''],
                                     attrs = [''url'' \<mapsto> ''git@b:y.git'']\<rparr>]\<rparr>"
proof -
  let ?e = "canned_env
             [(''git remote'', 0, ''origin\<newline>upstream\<newline>''),
              (''git config --get remote.origin.url'', 0, ''https://a/x.git\<newline>''),
              (''git config --get remote.upstream.url'', 0, ''git@b:y.git\<newline>'')]"
  let ?s = "Repo_defaults (Some ''/r'')"
  have n: "RunCmd ?e (calls world0) ''git remote'' (path ?s) = Inr (0, ''origin\<newline>upstream\<newline>'')"
    by (simp add: canned_env_def canned_def)
  have n': "strip ''origin\<newline>upstream\<newline>'' = ''origin\<newline>upstream''"
    by (simp add: strip_def isspace_def)
  have a: "RunCmd ?e (calls world0 @ [(''git remote'', path ?s)])
             ''git config --get remote.origin.url'' (path ?s) = Inr (0, ''https://a/x.git\<newline>'')"
    by (simp add: canned_env_def canned_def)
  have a': "strip ''https://a/x.git\<newline>'' = ''https://a/x.git''"
    by (simp add: strip_def isspace_def)
  have b: "RunCmd ?e (calls world0 @ [(''git remote'', path ?s),
                         (''git config --get remote.origin.url'', path ?s)])
             ''git config --get remote.upstream.url'' (path ?s) = Inr (0, ''git@b:y.git\<newline>'')"
    by (simp add: canned_env_def canned_def)
  have b': "strip ''git@b:y.git\<newline>'' = ''git@b:y.git''"
    by (simp add: strip_def isspace_def)
  from get_remotes_origin_upstream [OF n n' a a' b b'] show ?thesis
    by (rule conjunct1)
qed

text \<open>
  Claim C6. When the name-list query answers with nothing but white space (a
  repository without remotes), \<^verbatim>\<open>_get_remotes\<close> still runs its loop once, for the empty
  name: it asks for the URL of the remote \<^verbatim>\<open>""\<close> and returns an \<^verbatim>\<open>ObjectDict\<close> with
  the single declared name \<^verbatim>\<open>""\<close> and the single attribute \<^verbatim>\<open>""\<close>, not an empty one.
\<close>

theorem get_remotes_no_remote:
  assumes names: "RunCmd e (calls w) ''git remote'' (path self) = Inr (rc, out)"
      "strip out = []"
    and lookup: "RunCmd e (calls w @ [(''git remote'', path self)])
             ''git config --get remote..url'' (path self) = Inr (rca, outa)"
  shows "get_remotes e self w =
           (Inr \<lparr>ovalues = Inl [''''],
                 attrs = ['''' \<mapsto> \<lparr>ovalues = Inl [''url''],
                                    attrs = [''url'' \<mapsto> strip outa]\<rparr>]\<rparr>,
            w\<lparr>calls := calls w @ [(''git remote'', path self),
                                    (''git config --get remote..url'', path self)]\<rparr>)
         \<and> fst (get_remotes e self w) \<noteq> Inr ObjectDict_init
         \<and> dom (attrs (projr (fst (get_remotes e self w)))) = {''''}"
proof -
  let ?c = "(''git remote'', path self)"
  let ?u = "\<lparr>ovalues = Inl [''url''], attrs = [''url'' \<mapsto> strip outa]\<rparr>"
  have u: "get_url e self '''' (w\<lparr>calls := calls w @ [?c]\<rparr>) =
             (Inr (strip outa),
              w\<lparr>calls := calls w @ [?c, (''git config --get remote..url'', path self)]\<rparr>)"
    using get_url_ok [of e "w\<lparr>calls := calls w @ [?c]\<rparr>" "''''" self rca outa] lookup by simp
  have s: "ObjectDict_setattr ObjectDict_init '''' ?u =
             Inr \<lparr>ovalues = Inl [''''], attrs = ['''' \<mapsto> ?u]\<rparr>"
    by (simp add: ObjectDict_setattr_def object_setattr_def ObjectDict_init_def startswith_def)
  have res: "get_remotes e self w =
           (Inr \<lparr>ovalues = Inl [''''], attrs = ['''' \<mapsto> ?u]\<rparr>,
            w\<lparr>calls := calls w @ [?c, (''git config --get remote..url'', path self)]\<rparr>)"
    using names by (simp add: get_remotes_def invoke_def u url_object s)
  show ?thesis
    unfolding res by (simp add: ObjectDict_init_def)
qed

theorem get_remotes_no_remote_witness:
  "get_remotes
     (canned_env [(''git remote'', 0, ''''), (''git config --get remote..url'', 1, '''')])
     (Repo_defaults (Some ''/r'')) world0
   = (Inr \<lparr>ovalues = Inl [''''],
           attrs = ['''' \<mapsto> \<lparr>ovalues = Inl [''url''], attrs = [''url'' \<mapsto> '''']\<rparr>]\<rparr>,
      \<lparr>calls = [(''git remote'', Some ''/r''), (''git config --get remote..url'', Some ''/r'')],
       logged = []\<rparr>)"
proof -
  let ?e = "canned_env [(''git remote'', 0, ''''), (''git config --get remote..url'', 1, '''')]"
  let ?s = "Repo_defaults (Some ''/r'')"
  have n: "RunCmd ?e (calls world0) ''git remote'' (path ?s) = Inr (0, '''')"
    by (simp add: canned_env_def canned_def)
  have n': "strip '''' = []"
    by (simp add: strip_def)
  have l: "RunCmd ?e (calls world0 @ [(''git remote'', path ?s)])
             ''git config --get remote..url'' (path ?s) = Inr (1, '''')"
    by (simp add: canned_env_def canned_def)
  from get_remotes_no_remote [OF n n' l] show ?thesis
    by (simp add: world0_def Repo_defaults_def strip_def)
qed

section \<open>Operations\<close>

text \<open>
  Claim C7. \<^verbatim>\<open>submodule\<close> issues exactly one invocation, in the handle's directory,
  after a debug record of the call. If the runner returns exit code 0 the operation
  returns true and logs nothing more; if the runner returns any other exit code it logs
  the trimmed captured output as an error and returns false. The operation has no
  handler of its own: if the runner raises, that exception leaves \<^verbatim>\<open>submodule\<close>, with
  the invocation recorded and nothing but the debug record logged. So the operation
  raises nothing exactly when the runner raises nothing.
\<close>

theorem submodule_exit_code:
  "(RunCmd e (calls w) (''git submodule '' @ command @ '' '' @ join_sp args) (path self)
      = Inr (rc, out)
    \<longrightarrow> submodule e self command args w =
         (Inr (rc = 0),
          w\<lparr>calls := calls w @
               [(''git submodule '' @ command @ '' '' @ join_sp args, path self)],
            logged := logged w @
               [(DEBUG, Formatted ''Calling command on submodule {0} with {1}''
                          [Str command, Tuple args])] @
               (if rc = 0 then [] else [(ERROR, Plain (Str (strip out)))])\<rparr>))
   \<and> (RunCmd e (calls w) (''git submodule '' @ command @ '' '' @ join_sp args) (path self)
      = Inl x
    \<longrightarrow> submodule e self command args w =
         (Inl x,
          w\<lparr>calls := calls w @
               [(''git submodule '' @ command @ '' '' @ join_sp args, path self)],
            logged := logged w @
               [(DEBUG, Formatted ''Calling command on submodule {0} with {1}''
                          [Str command, Tuple args])]\<rparr>))"
  by (simp add: submodule_def invoke_def log_record_def Let_def)

theorem submodule_exit_code_witness:
  "fst (submodule (canned_env [(''git submodule update --init'', 0, '''')])
          (Repo_defaults (Some ''/r'')) ''update'' [''--init''] world0) = Inr True
   \<and> submodule (canned_env [(''git submodule update --init'', 2, ''fatal: no submodule mapping\<newline>'')])
          (Repo_defaults (Some ''/r'')) ''update'' [''--init''] world0
     = (Inr False,
        \<lparr>calls = [(''git submodule update --init'', Some ''/r'')],
         logged = [(DEBUG, Formatted ''Calling command on submodule {0} with {1}''
                             [Str ''update'', Tuple [''--init'']]),
                   (ERROR, Plain (Str ''fatal: no submodule mapping''))]\<rparr>)
   \<and> submodule (canned_env []) (Repo_defaults (Some ''/r'')) ''update'' [''--init''] world0
     = (Inl (Exc ''OSError'' ''git submodule update --init''),
        \<lparr>calls = [(''git submodule update --init'', Some ''/r'')],
         logged = [(DEBUG, Formatted ''Calling command on submodule {0} with {1}''
                             [Str ''update'', Tuple [''--init'']])]\<rparr>)"
proof -
  let ?s = "Repo_defaults (Some ''/r'')"
  have a: "RunCmd (canned_env [(''git submodule update --init'', 0, '''')]) (calls world0)
             (''git submodule '' @ ''update'' @ '' '' @ join_sp [''--init'']) (path ?s)
           = Inr (0, '''')"
    by (simp add: canned_env_def canned_def)
  have b: "RunCmd (canned_env [(''git submodule update --init'', 2, ''fatal: no submodule mapping\<newline>'')])
             (calls world0)
             (''git submodule '' @ ''update'' @ '' '' @ join_sp [''--init'']) (path ?s)
           = Inr (2, ''fatal: no submodule mapping\<newline>'')"
    by (simp add: canned_env_def canned_def)
  have c: "RunCmd (canned_env []) (calls world0)
             (''git submodule '' @ ''update'' @ '' '' @ join_sp [''--init'']) (path ?s)
           = Inl (Exc ''OSError'' ''git submodule update --init'')"
    by (simp add: canned_env_def canned_def)
  have s: "strip ''fatal: no submodule mapping\<newline>'' = ''fatal: no submodule mapping''"
    by (simp add: strip_def isspace_def)
  from submodule_exit_code [THEN conjunct1, THEN mp, OF a]
       submodule_exit_code [THEN conjunct1, THEN mp, OF b]
       submodule_exit_code [THEN conjunct2, THEN mp, OF c]
  show ?thesis
    by (simp add: world0_def Repo_defaults_def s)
qed

text \<open>
  The runner fails to start the tool: \<^verbatim>\<open>submodule("sync")\<close> raises.
\<close>

theorem submodule_runner_raises:
  "fst (submodule (canned_env []) (Repo_defaults (Some ''/r'')) ''sync'' [] world0)
   = Inl (Exc ''OSError'' ''git submodule sync '')"
  by (simp add: submodule_def invoke_def log_record_def Let_def canned_env_def canned_def
        world0_def Repo_defaults_def)


section \<open>Exit codes\<close>

lemma invoke_with_exit_codes:
  "invoke (with_exit_codes f e) cmd wd w =
     (case invoke e cmd wd w of
        (Inl x, w') \<Rightarrow> (Inl x, w')
      | (Inr (rc, out), w') \<Rightarrow> (Inr (f (calls w) cmd wd rc, out), w'))"
  by (simp add: invoke_def with_exit_codes_def split: sum.splits prod.splits)

lemma get_branch_with_exit_codes:
  "get_branch (with_exit_codes f e) self w = get_branch e self w"
  by (simp add: get_branch_def invoke_with_exit_codes split: sum.splits prod.splits)

lemma get_url_with_exit_codes:
  "get_url (with_exit_codes f e) self remote w = get_url e self remote w"
  by (simp add: get_url_def invoke_with_exit_codes split: sum.splits prod.splits)

lemma get_head_with_exit_codes:
  "get_head (with_exit_codes f e) self w = get_head e self w"
  by (simp add: get_head_def invoke_with_exit_codes split: sum.splits prod.splits)

lemma get_bare_with_exit_codes:
  "get_bare (with_exit_codes f e) self w = get_bare e self w"
  by (simp add: get_bare_def invoke_with_exit_codes split: sum.splits prod.splits)

lemma get_dirty_with_exit_codes:
  "get_dirty (with_exit_codes f e) self w = get_dirty e self w"
  by (simp add: get_dirty_def invoke_with_exit_codes split: sum.splits prod.splits)

lemma remotes_loop_with_exit_codes:
  "remotes_loop (with_exit_codes f e) self names acc w = remotes_loop e self names acc w"
  by (induction names arbitrary: acc w)
     (simp_all add: get_url_with_exit_codes split: sum.splits prod.splits)

lemma get_remotes_with_exit_codes:
  "get_remotes (with_exit_codes f e) self w = get_remotes e self w"
  by (simp add: get_remotes_def invoke_with_exit_codes remotes_loop_with_exit_codes
        split: sum.splits prod.splits)

lemma isdir_with_exit_codes: "isdir (with_exit_codes f e) = isdir e"
  by (simp add: with_exit_codes_def)

lemma get_initalized_with_exit_codes:
  "get_initalized (with_exit_codes f e) self w = get_initalized e self w"
  by (simp add: get_initalized_def os_path_isdir_def isdir_with_exit_codes split: option.splits)

lemma try_body_with_exit_codes:
  "try_body (with_exit_codes f e) self w = try_body e self w"
  by (simp add: try_body_def get_branch_with_exit_codes get_remotes_with_exit_codes
        get_head_with_exit_codes get_dirty_with_exit_codes get_bare_with_exit_codes
        get_initalized_with_exit_codes Let_def
      cong: prod.case_cong sum.case_cong)

lemma update_from_git_with_exit_codes:
  "update_from_git (with_exit_codes f e) self w = update_from_git e self w"
  by (simp add: update_from_git_def try_body_with_exit_codes os_path_isdir_def
        isdir_with_exit_codes split: option.splits sum.splits bool.splits)

lemma get_branch_ok:
  assumes "RunCmd e (calls w) ''git rev-parse --abbrev-ref HEAD'' (path self) = Inr (rc, out)"
  shows "get_branch e self w =
           (Inr (strip out),
            w\<lparr>calls := calls w @ [(''git rev-parse --abbrev-ref HEAD'', path self)]\<rparr>)"
  using assms by (simp add: get_branch_def invoke_def)

lemma get_head_ok:
  assumes "RunCmd e (calls w) ''git rev-parse HEAD'' (path self) = Inr (rc, out)"
  shows "get_head e self w =
           (Inr \<lparr>ovalues = Inl [''commit''], attrs = [''commit'' \<mapsto> strip out]\<rparr>,
            w\<lparr>calls := calls w @ [(''git rev-parse HEAD'', path self)]\<rparr>)"
  using assms
  by (simp add: get_head_def invoke_def ObjectDict_set_def ObjectDict_setattr_def
        object_setattr_def ObjectDict_init_def startswith_def)

lemma get_bare_ok:
  assumes "RunCmd e (calls w) ''git rev-parse --is-bare-repository'' (path self) = Inr (rc, out)"
  shows "get_bare e self w =
           (Inr (lower (strip out) = ''true''),
            w\<lparr>calls := calls w @ [(''git rev-parse --is-bare-repository'', path self)]\<rparr>)"
  using assms by (simp add: get_bare_def invoke_def)

text \<open>
  Claim C10. The five queries behind the fields never look at the exit code. Replace
  every exit code the runner returns by any other and \<^verbatim>\<open>_get_branch\<close>, \<^verbatim>\<open>_get_url\<close>,
  \<^verbatim>\<open>_get_head\<close>, \<^verbatim>\<open>_get_dirty\<close>, \<^verbatim>\<open>_get_bare\<close> and with them the whole of
  \<^verbatim>\<open>_update_from_git\<close> return what they returned before. And whenever the runner returns
  at all, with whatever exit code, the query returns a value computed from the trimmed
  output alone and does not raise.
\<close>

theorem exit_code_discarded:
  "get_branch (with_exit_codes f e) self w = get_branch e self w
   \<and> get_url (with_exit_codes f e) self remote w = get_url e self remote w
   \<and> get_head (with_exit_codes f e) self w = get_head e self w
   \<and> get_dirty (with_exit_codes f e) self w = get_dirty e self w
   \<and> get_bare (with_exit_codes f e) self w = get_bare e self w
   \<and> update_from_git (with_exit_codes f e) self w = update_from_git e self w
   \<and> (RunCmd e (calls w) ''git rev-parse --abbrev-ref HEAD'' (path self) = Inr (rc, out)
        \<longrightarrow> fst (get_branch e self w) = Inr (strip out))
   \<and> (RunCmd e (calls w) (''git config --get remote.'' @ remote @ ''.url'') (path self)
          = Inr (rc, out)
        \<longrightarrow> fst (get_url e self remote w) = Inr (strip out))
   \<and> (RunCmd e (calls w) ''git rev-parse HEAD'' (path self) = Inr (rc, out)
        \<longrightarrow> fst (get_head e self w)
            = Inr \<lparr>ovalues = Inl [''commit''], attrs = [''commit'' \<mapsto> strip out]\<rparr>)
   \<and> (RunCmd e (calls w) ''git status --short'' (path self) = Inr (rc, out)
        \<longrightarrow> strip out \<noteq> [] \<longrightarrow> fst (get_dirty e self w) = Inr True)
   \<and> (RunCmd e (calls w) ''git status --short'' (path self) = Inr (rc, out)
        \<longrightarrow> strip out = []
        \<longrightarrow> RunCmd e (calls w @ [(''git status --short'', path self)])
              ''git log --branches --not --remotes --decorate --oneline'' (path self)
            = Inr (rc', out')
        \<longrightarrow> fst (get_dirty e self w) = Inr (strip out' \<noteq> []))
   \<and> (RunCmd e (calls w) ''git rev-parse --is-bare-repository'' (path self) = Inr (rc, out)
        \<longrightarrow> fst (get_bare e self w) = Inr (lower (strip out) = ''true''))"
proof (intro conjI impI)
  show "get_branch (with_exit_codes f e) self w = get_branch e self w"
    by (rule get_branch_with_exit_codes)
  show "get_url (with_exit_codes f e) self remote w = get_url e self remote w"
    by (rule get_url_with_exit_codes)
  show "get_head (with_exit_codes f e) self w = get_head e self w"
    by (rule get_head_with_exit_codes)
  show "get_dirty (with_exit_codes f e) self w = get_dirty e self w"
    by (rule get_dirty_with_exit_codes)
  show "get_bare (with_exit_codes f e) self w = get_bare e self w"
    by (rule get_bare_with_exit_codes)
  show "update_from_git (with_exit_codes f e) self w = update_from_git e self w"
    by (rule update_from_git_with_exit_codes)
next
  assume "RunCmd e (calls w) ''git rev-parse --abbrev-ref HEAD'' (path self) = Inr (rc, out)"
  then show "fst (get_branch e self w) = Inr (strip out)"
    by (simp add: get_branch_ok)
next
  assume "RunCmd e (calls w) (''git config --get remote.'' @ remote @ ''.url'') (path self)
          = Inr (rc, out)"
  then show "fst (get_url e self remote w) = Inr (strip out)"
    by (simp add: get_url_ok)
next
  assume "RunCmd e (calls w) ''git rev-parse HEAD'' (path self) = Inr (rc, out)"
  then show "fst (get_head e self w)
            = Inr \<lparr>ovalues = Inl [''commit''], attrs = [''commit'' \<mapsto> strip out]\<rparr>"
    by (simp add: get_head_ok)
next
  assume "RunCmd e (calls w) ''git status --short'' (path self) = Inr (rc, out)"
    and "strip out \<noteq> []"
  then show "fst (get_dirty e self w) = Inr True"
    by (simp add: get_dirty_first)
next
  assume "RunCmd e (calls w) ''git status --short'' (path self) = Inr (rc, out)"
    and "strip out = []"
    and "RunCmd e (calls w @ [(''git status --short'', path self)])
              ''git log --branches --not --remotes --decorate --oneline'' (path self)
            = Inr (rc', out')"
  then show "fst (get_dirty e self w) = Inr (strip out' \<noteq> [])"
    by (simp add: get_dirty_second)
next
  assume "RunCmd e (calls w) ''git rev-parse --is-bare-repository'' (path self) = Inr (rc, out)"
  then show "fst (get_bare e self w) = Inr (lower (strip out) = ''true'')"
    by (simp add: get_bare_ok)
qed

theorem exit_code_discarded_witness:
  "fst (get_branch (canned_env [(''git rev-parse --abbrev-ref HEAD'', 128, '''')])
          (Repo_defaults (Some ''/r'')) world0) = Inr ''''
   \<and> fst (get_bare (canned_env [(''git rev-parse --is-bare-repository'', 128, ''true\<newline>'')])
          (Repo_defaults (Some ''/r'')) world0) = Inr True"
proof -
  let ?s = "Repo_defaults (Some ''/r'')"
  have a: "RunCmd (canned_env [(''git rev-parse --abbrev-ref HEAD'', 128, '''')]) (calls world0)
             ''git rev-parse --abbrev-ref HEAD'' (path ?s) = Inr (128, '''')"
    by (simp add: canned_env_def canned_def)
  have b: "RunCmd (canned_env [(''git rev-parse --is-bare-repository'', 128, ''true\<newline>'')])
             (calls world0) ''git rev-parse --is-bare-repository'' (path ?s)
           = Inr (128, ''true\<newline>'')"
    by (simp add: canned_env_def canned_def)
  have s: "strip '''' = ''''" "lower (strip ''true\<newline>'') = ''true''"
    by code_simp+
  have x: "fst (get_branch (canned_env [(''git rev-parse --abbrev-ref HEAD'', 128, '''')])
                  ?s world0) = Inr (strip '''')"
    using exit_code_discarded
      [where e = "canned_env [(''git rev-parse --abbrev-ref HEAD'', 128, '''')]"
         and self = ?s and w = world0 and rc = 128 and out = "''''"] a
    by blast
  have y: "fst (get_bare (canned_env [(''git rev-parse --is-bare-repository'', 128, ''true\<newline>'')])
                  ?s world0) = Inr (lower (strip ''true\<newline>'') = ''true'')"
    using exit_code_discarded
      [where e = "canned_env [(''git rev-parse --is-bare-repository'', 128, ''true\<newline>'')]"
         and self = ?s and w = world0 and rc = 128 and out = "''true\<newline>''"] b
    by blast
  from x y s show ?thesis by simp
qed

section \<open>Failures of the derivation\<close>









section \<open>Cloning\<close>

lemma invoke_clone_calls:
  "clone_calls (snd (invoke e cmd wd w))
   = clone_calls w @ (if is_clone (cmd, wd) then [(cmd, wd)] else [])"
  by (simp add: invoke_def clone_calls_def)

lemma invoke_no_clone:
  assumes "\<not> is_clone (cmd, wd)" and "invoke e cmd wd w = (a, v)"
  shows "clone_calls v = clone_calls w"
  using assms by (auto simp add: invoke_def clone_calls_def)

lemma log_record_clone_calls: "clone_calls (log_record l m w) = clone_calls w"
  by (simp add: log_record_def clone_calls_def)

lemma queries_are_not_clones:
  "\<not> is_clone (''git rev-parse --abbrev-ref HEAD'', wd)"
  "\<not> is_clone (''git config --get remote.'' @ remote @ ''.url'', wd)"
  "\<not> is_clone (''git remote'', wd)"
  "\<not> is_clone (''git rev-parse HEAD'', wd)"
  "\<not> is_clone (''git status --short'', wd)"
  "\<not> is_clone (''git log --branches --not --remotes --decorate --oneline'', wd)"
  "\<not> is_clone (''git rev-parse --is-bare-repository'', wd)"
  by (simp_all add: is_clone_def startswith_def)

lemma get_branch_clone_calls:
  assumes "get_branch e self w = (r, w')"
  shows "clone_calls w' = clone_calls w"
proof -
  obtain a v where i: "invoke e ''git rev-parse --abbrev-ref HEAD'' (path self) w = (a, v)"
    by (cases "invoke e ''git rev-parse --abbrev-ref HEAD'' (path self) w") auto
  have "clone_calls v = clone_calls w"
    by (rule invoke_no_clone [OF _ i]) (rule queries_are_not_clones)
  moreover from assms i have "w' = v"
    by (auto simp add: get_branch_def split: sum.splits prod.splits)
  ultimately show ?thesis by simp
qed

lemma get_url_clone_calls:
  assumes "get_url e self remote w = (r, w')"
  shows "clone_calls w' = clone_calls w"
proof -
  let ?c = "''git config --get remote.'' @ remote @ ''.url''"
  obtain a v where i: "invoke e ?c (path self) w = (a, v)"
    by (cases "invoke e ?c (path self) w") auto
  have "clone_calls v = clone_calls w"
    by (rule invoke_no_clone [OF _ i]) (rule queries_are_not_clones)
  moreover from assms i have "w' = v"
    by (auto simp add: get_url_def split: sum.splits prod.splits)
  ultimately show ?thesis by simp
qed

lemma get_head_clone_calls:
  assumes "get_head e self w = (r, w')"
  shows "clone_calls w' = clone_calls w"
proof -
  obtain a v where i: "invoke e ''git rev-parse HEAD'' (path self) w = (a, v)"
    by (cases "invoke e ''git rev-parse HEAD'' (path self) w") auto
  have "clone_calls v = clone_calls w"
    by (rule invoke_no_clone [OF _ i]) (rule queries_are_not_clones)
  moreover from assms i have "w' = v"
    by (auto simp add: get_head_def split: sum.splits prod.splits)
  ultimately show ?thesis by simp
qed

lemma get_bare_clone_calls:
  assumes "get_bare e self w = (r, w')"
  shows "clone_calls w' = clone_calls w"
proof -
  obtain a v where i: "invoke e ''git rev-parse --is-bare-repository'' (path self) w = (a, v)"
    by (cases "invoke e ''git rev-parse --is-bare-repository'' (path self) w") auto
  have "clone_calls v = clone_calls w"
    by (rule invoke_no_clone [OF _ i]) (rule queries_are_not_clones)
  moreover from assms i have "w' = v"
    by (auto simp add: get_bare_def split: sum.splits prod.splits if_splits)
  ultimately show ?thesis by simp
qed

lemma get_dirty_clone_calls:
  assumes "get_dirty e self w = (r, w')"
  shows "clone_calls w' = clone_calls w"
proof -
  let ?l = "''git log --branches --not --remotes --decorate --oneline''"
  obtain a v where i: "invoke e ''git status --short'' (path self) w = (a, v)"
    by (cases "invoke e ''git status --short'' (path self) w") auto
  obtain b v' where j: "invoke e ?l (path self) v = (b, v')"
    by (cases "invoke e ?l (path self) v") auto
  have v: "clone_calls v = clone_calls w"
    by (rule invoke_no_clone [OF _ i]) (rule queries_are_not_clones)
  have "clone_calls v' = clone_calls v"
    by (rule invoke_no_clone [OF _ j]) (rule queries_are_not_clones)
  with v have v': "clone_calls v' = clone_calls w"
    by simp
  from assms i j have "w' = v \<or> w' = v'"
    by (auto simp add: get_dirty_def split: sum.splits prod.splits if_splits)
  with v v' show ?thesis by auto
qed

lemma remotes_loop_clone_calls:
  "remotes_loop e self names acc w = (r, w') \<Longrightarrow> clone_calls w' = clone_calls w"
proof (induction names arbitrary: acc w)
  case Nil
  then show ?case by simp
next
  case (Cons remote rest)
  obtain a v where g: "get_url e self remote w = (a, v)"
    by (cases "get_url e self remote w") auto
  note v = get_url_clone_calls [OF g]
  show ?case
  proof (cases a)
    case (Inl x)
    with Cons.prems g v show ?thesis by simp
  next
    case (Inr u)
    show ?thesis
    proof (cases "ObjectDict_set ObjectDict_init ''url'' u")
      case (Inl x)
      with Cons.prems g v \<open>a = Inr u\<close> show ?thesis by simp
    next
      case o: (Inr url_obj)
      show ?thesis
      proof (cases "ObjectDict_setattr acc remote url_obj")
        case (Inl x)
        with Cons.prems g v o \<open>a = Inr u\<close> show ?thesis by simp
      next
        case (Inr acc')
        with Cons.prems g o \<open>a = Inr u\<close>
        have "remotes_loop e self rest acc' v = (r, w')" by simp
        from Cons.IH [OF this] v show ?thesis by simp
      qed
    qed
  qed
qed

lemma get_remotes_clone_calls:
  assumes "get_remotes e self w = (r, w')"
  shows "clone_calls w' = clone_calls w"
proof -
  obtain a v where i: "invoke e ''git remote'' (path self) w = (a, v)"
    by (cases "invoke e ''git remote'' (path self) w") auto
  have v: "clone_calls v = clone_calls w"
    by (rule invoke_no_clone [OF _ i]) (rule queries_are_not_clones)
  show ?thesis
  proof (cases a)
    case (Inl x)
    with assms i v show ?thesis by (simp add: get_remotes_def)
  next
    case (Inr ro)
    obtain rc out where "ro = (rc, out)" by (cases ro) auto
    with assms i Inr
    have "remotes_loop e self (split_nl (strip out)) ObjectDict_init v = (r, w')"
      by (simp add: get_remotes_def)
    from remotes_loop_clone_calls [OF this] v show ?thesis by simp
  qed
qed

lemma try_body_clone_calls:
  assumes "try_body e self w = (r, s, w')"
  shows "clone_calls w' = clone_calls w"
  using assms
  by (auto simp add: try_body_def Let_def split: sum.splits prod.splits
        dest!: get_branch_clone_calls get_remotes_clone_calls get_head_clone_calls
               get_dirty_clone_calls get_bare_clone_calls)

lemma update_from_git_clone_calls:
  assumes "update_from_git e self w = (r, s, w')"
  shows "clone_calls w' = clone_calls w"
  using assms
  by (auto simp add: update_from_git_def log_record_clone_calls
        split: sum.splits prod.splits option.splits bool.splits
        dest!: try_body_clone_calls)

lemma Repo_init_clone_calls: "clone_calls (snd (Repo_init e p w)) = clone_calls w"
proof -
  obtain r s w' where u: "update_from_git e (Repo_defaults p) w = (r, s, w')"
    by (cases "update_from_git e (Repo_defaults p) w") auto
  from update_from_git_clone_calls [OF u] u show ?thesis
    by (cases r) (simp_all add: Repo_init_def)
qed

lemma clone_cmd_is_clone: "is_clone (clone_cmd shallow u p, wd)"
  by (simp add: is_clone_def startswith_def clone_cmd_def)

lemma clone_from_clone_calls:
  "clone_calls (snd (clone_from e u p shallow w))
   = clone_calls w @ [(clone_cmd shallow u p, None)]"
proof -
  let ?w0 = "log_record DEBUG (Formatted ''Cloning {0} into {1}'' [Str u, Str p]) w"
  obtain a v where i: "invoke e (clone_cmd shallow u p) None ?w0 = (a, v)"
    by (cases "invoke e (clone_cmd shallow u p) None ?w0") auto
  from invoke_clone_calls [of e "clone_cmd shallow u p" None ?w0] i
  have v: "clone_calls v = clone_calls w @ [(clone_cmd shallow u p, None)]"
    by (simp add: clone_cmd_is_clone log_record_clone_calls)
  from i v show ?thesis
    by (cases a) (simp_all add: clone_from_def Let_def Repo_init_clone_calls)
qed

text \<open>
  Claim C9. A shallow \<^verbatim>\<open>clone_from(url, to_path)\<close> runs the command line
  \<^verbatim>\<open>git clone --depth 1 --shallow-submodules --recurse-submodules url to_path\<close> (with a
  trailing blank), with no working directory. Whatever the collaborators do, the
  \<^verbatim>\<open>git clone\<close> invocations in the trace afterwards are those before plus this one, so
  exactly one is issued. And when the runner returns from it, with whatever exit code
  and output, the result is that of constructing \<^verbatim>\<open>Repo(to_path)\<close> in the world the clone
  has left: a handle built from the defaults and derived anew from \<^verbatim>\<open>to_path\<close>.
\<close>

theorem clone_from_shallow:
  "clone_cmd True u p
     = ''git clone --depth 1 --shallow-submodules --recurse-submodules '' @ u @ '' '' @ p @ '' ''
   \<and> clone_calls (snd (clone_from e u p True w))
     = clone_calls w @ [(clone_cmd True u p, None)]
   \<and> (RunCmd e (calls w) (clone_cmd True u p) None = Inr (rc, out)
      \<longrightarrow> clone_from e u p True w
          = Repo_init e (Some p)
              (w\<lparr>logged := logged w @
                   [(DEBUG, Formatted ''Cloning {0} into {1}'' [Str u, Str p])],
                 calls := calls w @ [(clone_cmd True u p, None)]\<rparr>))"
proof (intro conjI impI)
  show "clone_cmd True u p
     = ''git clone --depth 1 --shallow-submodules --recurse-submodules '' @ u @ '' '' @ p @ '' ''"
    by (simp add: clone_cmd_def)
  show "clone_calls (snd (clone_from e u p True w))
     = clone_calls w @ [(clone_cmd True u p, None)]"
    by (rule clone_from_clone_calls)
next
  assume "RunCmd e (calls w) (clone_cmd True u p) None = Inr (rc, out)"
  then show "clone_from e u p True w
          = Repo_init e (Some p)
              (w\<lparr>logged := logged w @
                   [(DEBUG, Formatted ''Cloning {0} into {1}'' [Str u, Str p])],
                 calls := calls w @ [(clone_cmd True u p, None)]\<rparr>)"
    by (simp add: clone_from_def invoke_def log_record_def Let_def)
qed


theorem clone_from_shallow_witness:
  "clone_from
     \<lparr>RunCmd = canned
        [(''git clone --depth 1 --shallow-submodules --recurse-submodules https://a/x.git /r '',
          0, ''''),
         (''git rev-parse --abbrev-ref HEAD'', 0, ''main\<newline>''),
         (''git remote'', 0, ''origin\<newline>''),
         (''git config --get remote.origin.url'', 0, ''https://a/x.git\<newline>''),
         (''git rev-parse HEAD'', 0, ''c0ffee\<newline>''),
         (''git status --short'', 0, ''''),
         (''git log --branches --not --remotes --decorate --oneline'', 0, ''''),
         (''git rev-parse --is-bare-repository'', 0, ''false\<newline>'')],
      isdir = (\<lambda>h p. h \<noteq> [])\<rparr>
     ''https://a/x.git'' ''/r'' True world0
   = (Inr \<lparr>path = Some ''/r'', active_branch = Some ''main'', bare = False, exists = True,
           remotes = \<lparr>ovalues = Inl [''origin''],
                      attrs = [''origin'' \<mapsto>
                                 \<lparr>ovalues = Inl [''url''],
                                  attrs = [''url'' \<mapsto> ''https://a/x.git'']\<rparr>]\<rparr>,
           initalized = True, url = None, dirty = False,
           head = Some \<lparr>ovalues = Inl [''commit''], attrs = [''commit'' \<mapsto> ''c0ffee'']\<rparr>\<rparr>,
      \<lparr>calls =
         [(''git clone --depth 1 --shallow-submodules --recurse-submodules https://a/x.git /r '',
           None),
          (''git rev-parse --abbrev-ref HEAD'', Some ''/r''),
          (''git remote'', Some ''/r''),
          (''git config --get remote.origin.url'', Some ''/r''),
          (''git rev-parse HEAD'', Some ''/r''),
          (''git status --short'', Some ''/r''),
          (''git log --branches --not --remotes --decorate --oneline'', Some ''/r''),
          (''git rev-parse --is-bare-repository'', Some ''/r'')],
       logged = [(DEBUG, Formatted ''Cloning {0} into {1}'' [Str ''https://a/x.git'', Str ''/r''])]\<rparr>)"
  (is "clone_from ?e ?u ?p True world0 = ?result")
proof -
  have c: "clone_cmd True ?u ?p
           = ''git clone --depth 1 --shallow-submodules --recurse-submodules https://a/x.git /r ''"
    by (simp add: clone_cmd_def)
  have h: "RunCmd ?e (calls world0) (clone_cmd True ?u ?p) None = Inr (0, '''')"
    by (simp add: c canned_def)
  have s: "strip ''main\<newline>'' = ''main''" "strip ''origin\<newline>'' = ''origin''"
    "strip ''https://a/x.git\<newline>'' = ''https://a/x.git''"
    "strip ''c0ffee\<newline>'' = ''c0ffee''" "strip '''' = ''''"
    "lower (strip ''false\<newline>'') = ''false''"
    by code_simp+
  have r: "Repo_init ?e (Some ?p)
             (world0\<lparr>logged := logged world0 @
                        [(DEBUG, Formatted ''Cloning {0} into {1}'' [Str ?u, Str ?p])],
                      calls := calls world0 @ [(clone_cmd True ?u ?p, None)]\<rparr>)
           = ?result"
    by (simp add: c s Repo_init_def Repo_defaults_def update_from_git_def os_path_isdir_def
          try_body_def get_branch_def get_remotes_def get_url_def get_head_def get_dirty_def
          get_bare_def get_initalized_def invoke_def canned_def world0_def
          ObjectDict_set_def ObjectDict_setattr_def object_setattr_def ObjectDict_init_def
          startswith_def path_join_def log_record_def Let_def)
  from clone_from_shallow [THEN conjunct2, THEN conjunct2, THEN mp, OF h] r
  show ?thesis
    by (rule trans)
qed

end
